theory Spec2Isabelle
  imports Main
begin

section \<open>The group store of \<^verbatim>\<open>src/lib/db/group-store.ts\<close>\<close>

text \<open>
  The store is a thin layer over a query builder (Knex) and a relational database.
  The embedding has two layers.
  \<^item> The persistence gateway: tables, the statements the store issues, transactions.
    The gateway and the schema are not part of the repository's source; they are
    modelled from the specification (sections 3, 4.1, 6 and 7).
  \<^item> The store itself: \<open>rowToGroup\<close>, \<open>groupToRow\<close> and the methods of
    \<open>GroupStore\<close>, translated from the TypeScript source one by one.

  Every asynchronous method becomes a function from the world before the call to a
  result and the world after it. A rejected promise (a thrown error) is \<open>Inl e\<close>.
\<close>

subsection \<open>Errors\<close>

text \<open>
  \<open>NotFoundError\<close> is the only error the store raises itself; \<open>TypeError\<close> is
  what JavaScript throws when a property of \<open>undefined\<close> is read. The other three
  come from the gateway: a uniqueness or foreign-key violation, a transport failure,
  and a query on a transaction handle whose transaction is not open.
\<close>

datatype error =
    NotFoundError string
  | TypeError
  | ConstraintViolation
  | ConnectivityFailure
  | TransactionComplete

subsection \<open>Rows and domain objects\<close>

text \<open>
  Rows of table \<open>groups\<close> with the columns of \<open>GROUP_COLUMNS\<close>
  (\<open>id, name, description, created_at, created_by\<close>). An SQL \<open>NULL\<close> is \<open>None\<close>;
  a timestamp is a natural number.
\<close>

record group_row =
  g_id :: int
  g_name :: string
  g_description :: "string option"
  g_created_at :: nat
  g_created_by :: "string option"

text \<open>
  Rows of table \<open>group_user\<close>, with the four columns \<open>addNewUsersToGroup\<close> writes
  (\<open>group_id, user_id, type, created_by\<close>).
\<close>

record group_user_row =
  gu_group_id :: int
  gu_user_id :: int
  gu_type :: string
  gu_created_by :: string

text \<open>
  Modelled from the spec: the declarations of \<open>IStoreGroup\<close>, \<open>Group\<close>, \<open>IGroupModel\<close>,
  \<open>IUser\<close>, \<open>IGroupUserModel\<close> and \<open>IGroupUser\<close> (\<open>types/group.ts\<close>,
  \<open>types/stores/group-store.ts\<close>) are not in the source. The records below carry the
  fields the store reads or writes, named as the store names them (\<open>id\<close> is written
  \<open>id_group\<close> and \<open>id_user\<close>). They are extensible: an argument may carry
  further fields, as a TypeScript object may, and the store cannot see them.
  \<open>new Group({...})\<close> is record construction. An optional field that is absent
  (\<open>undefined\<close> or \<open>null\<close>) is \<open>None\<close>; this is the reading for a group that
  comes from a row (where it is \<open>null\<close>) and for the argument of \<open>create\<close> (an insert
  stores \<open>NULL\<close> for either). The argument of \<open>update\<close> is an \<open>IGroupModel\<close>, in
  which the two are kept apart, because an update treats them differently: its fields
  \<open>id\<close>, \<open>name\<close> and \<open>description\<close> are written \<open>id_model\<close>, \<open>name_model\<close> and
  \<open>description_model\<close>.
\<close>

datatype 'a optional = Undefined | Null | Defined 'a

record IStoreGroup =
  name :: string
  description :: "string option"

record Group = IStoreGroup +
  id_group :: int
  createdAt :: nat
  createdBy :: "string option"

record IGroupModel =
  id_model :: int
  name_model :: string
  description_model :: "string optional"

record IUser =
  id_user :: int

record IGroupUserModel =
  user :: IUser
  type :: string

record IGroupUser =
  groupId :: int
  userId :: int

subsection \<open>The persistence gateway\<close>

text \<open>
  Modelled from the spec: the schema (migrations) is not in the source. Section 6:
  a groups table keyed by identifier with unique name; a membership table keyed by
  (group identifier, user identifier); a users table referenced by foreign key from the
  membership table. \<open>groups_id_seq\<close> is the next system-assigned group identifier.
  Of the users table only the identifiers matter here.
\<close>

record database =
  t_groups :: "group_row list"
  t_group_user :: "group_user_row list"
  t_users :: "int list"
  groups_id_seq :: int

text \<open>The table names of the constant \<open>T\<close>.\<close>

datatype table = GROUPS | GROUP_USER | USERS

text \<open>
  A handle on which queries are issued: \<open>Db\<close> is the store's connection \<open>this.db\<close>
  (every statement commits by itself), \<open>Tx\<close> is the handle that \<open>this.db.transaction\<close>
  passes to its callback.
\<close>

datatype knex = Db | Tx

text \<open>The statements the store issues, as they are recorded in the trace.\<close>

datatype query =
    WhereFirst table int
  | RawExists table int
  | InsertReturning table IStoreGroup
  | UpdateReturning table int string "string optional"
  | BatchInsert table "group_user_row list"
  | WhereInDelete table "(int \<times> int) list"

datatype event = Begin | Commit | Rollback | Query knex query

text \<open>
  The world: the committed database, the working copy of the open transaction (if
  any), the schedule of transport faults (one entry is consumed by each query; \<open>True\<close>
  makes that query fail with \<open>ConnectivityFailure\<close>; an exhausted schedule means no
  further fault), the trace of everything the store asked of the gateway, and the
  clock that stamps \<open>created_at\<close>.
\<close>

record world =
  committed :: database
  pending :: "database option"
  faults :: "bool list"
  trace :: "event list"
  clock :: nat

definition view :: "knex \<Rightarrow> world \<Rightarrow> database option" where
  "view h w = (case h of Db \<Rightarrow> Some (committed w) | Tx \<Rightarrow> pending w)"

text \<open>
  Modelled from the spec: the query builder and the database engine are a library
  outside the repository (sections 2 and 7: every failure of the gateway is passed on
  to the caller). Issuing one query on a handle: the query is recorded and one entry
  of the fault schedule is consumed. A statement is atomic: when it fails the database
  it ran on is unchanged.
\<close>

definition execute ::
  "knex \<Rightarrow> query \<Rightarrow> (database \<Rightarrow> error + 'a \<times> database) \<Rightarrow> world \<Rightarrow> (error + 'a) \<times> world"
where
  "execute h q sem w =
    (let w1 = w\<lparr>faults := tl (faults w), trace := trace w @ [Query h q]\<rparr> in
     if faults w \<noteq> [] \<and> hd (faults w) then (Inl ConnectivityFailure, w1)
     else case h of
       Db \<Rightarrow> (case sem (committed w) of
                Inl e \<Rightarrow> (Inl e, w1)
              | Inr (a, db') \<Rightarrow> (Inr a, w1\<lparr>committed := db'\<rparr>))
     | Tx \<Rightarrow> (case pending w of
                None \<Rightarrow> (Inl TransactionComplete, w1)
              | Some p \<Rightarrow> (case sem p of
                  Inl e \<Rightarrow> (Inl e, w1)
                | Inr (a, db') \<Rightarrow> (Inr a, w1\<lparr>pending := Some db'\<rparr>))))"

text \<open>
  Modelled from the spec: \<open>this.db.transaction(handler)\<close> of the library (section
  4.1, steps 1 and 4). The handler runs on a working copy of the committed database;
  when it returns the copy is committed, when it throws the copy is discarded and the
  error is rethrown.
\<close>

definition db_transaction ::
  "(knex \<Rightarrow> world \<Rightarrow> (error + 'a) \<times> world) \<Rightarrow> world \<Rightarrow> (error + 'a) \<times> world"
where
  "db_transaction handler w =
    (case handler Tx (w\<lparr>pending := Some (committed w), trace := trace w @ [Begin]\<rparr>) of
       (Inl e, w1) \<Rightarrow> (Inl e, w1\<lparr>pending := None, trace := trace w1 @ [Rollback]\<rparr>)
     | (Inr a, w1) \<Rightarrow>
         (case pending w1 of
            None \<Rightarrow> (Inl TransactionComplete, w1\<lparr>trace := trace w1 @ [Rollback]\<rparr>)
          | Some p \<Rightarrow>
              (Inr a, w1\<lparr>committed := p, pending := None, trace := trace w1 @ [Commit]\<rparr>)))"

subsubsection \<open>Statements on table \<open>groups\<close>\<close>

text \<open>\<open>.where({ id }).first()\<close>: the first row with that id, or nothing.\<close>

definition sql_where_first :: "int \<Rightarrow> database \<Rightarrow> error + group_row option \<times> database" where
  "sql_where_first i db =
    Inr (case filter (\<lambda>r. g_id r = i) (t_groups db) of [] \<Rightarrow> None | r # _ \<Rightarrow> Some r, db)"

text \<open>\<open>SELECT EXISTS (SELECT 1 FROM groups WHERE id = ?) AS present\<close>: one row.\<close>

definition sql_exists :: "int \<Rightarrow> database \<Rightarrow> error + bool list \<times> database" where
  "sql_exists i db = Inr ([\<exists>r \<in> set (t_groups db). g_id r = i], db)"

text \<open>
  Modelled from the spec: the schema of table \<open>groups\<close> (section 3: the identifier
  is unique and system-assigned, the name is unique across groups, enforced by the
  storage). \<open>.insert(row).returning('*')\<close>: \<open>created_at\<close> is the time of the
  insert, a column the row does not supply is \<open>NULL\<close>. The insert is refused when the
  identifier or the name is taken.
\<close>

definition sql_insert_returning ::
  "nat \<Rightarrow> IStoreGroup \<Rightarrow> database \<Rightarrow> error + group_row list \<times> database"
where
  "sql_insert_returning now v db =
    (let r = \<lparr>g_id = groups_id_seq db, g_name = name v, g_description = description v,
              g_created_at = now, g_created_by = None\<rparr> in
     if \<exists>x \<in> set (t_groups db). g_id x = g_id r \<or> g_name x = g_name r
     then Inl ConstraintViolation
     else Inr ([r], db\<lparr>t_groups := t_groups db @ [r], groups_id_seq := groups_id_seq db + 1\<rparr>))"

text \<open>
  Modelled from the spec: the same schema.
  \<open>.where({ id }).update({ name, description }).returning(GROUP_COLUMNS)\<close>: the rows
  with that id get the new name and are returned. The library leaves a column whose
  value is \<open>undefined\<close> out of the statement, so such a description stays as stored;
  \<open>null\<close> stores \<open>NULL\<close>. The update is refused when it changes a row and another group
  holds the name.
\<close>

definition sql_update_returning ::
  "int \<Rightarrow> string \<Rightarrow> string optional \<Rightarrow> database \<Rightarrow> error + group_row list \<times> database"
where
  "sql_update_returning i nm descr db =
    (let set_cols = (\<lambda>r. r\<lparr>g_name := nm,
                              g_description := (case descr of
                                  Undefined \<Rightarrow> g_description r
                                | Null \<Rightarrow> None
                                | Defined d \<Rightarrow> Some d)\<rparr>) in
     if (\<exists>r \<in> set (t_groups db). g_id r = i) \<and>
        (\<exists>x \<in> set (t_groups db). g_id x \<noteq> i \<and> g_name x = nm)
     then Inl ConstraintViolation
     else Inr (map set_cols (filter (\<lambda>r. g_id r = i) (t_groups db)),
               db\<lparr>t_groups := map (\<lambda>r. if g_id r = i then set_cols r else r) (t_groups db)\<rparr>))"

subsubsection \<open>Statements on table \<open>group_user\<close>\<close>

definition gu_key :: "group_user_row \<Rightarrow> int \<times> int" where
  "gu_key r = (gu_group_id r, gu_user_id r)"

text \<open>
  Modelled from the spec: the schema of table \<open>group_user\<close> (sections 3, 4.1 and 6:
  at most one row per (group, user) pair; unknown group or user references are
  constraint violations). A membership row is refused when its pair is taken, or when
  it references an unknown group or an unknown user.
\<close>

definition gu_violates :: "group_user_row \<Rightarrow> database \<Rightarrow> bool" where
  "gu_violates r db \<longleftrightarrow>
     gu_key r \<in> set (map gu_key (t_group_user db)) \<or>
     gu_group_id r \<notin> set (map g_id (t_groups db)) \<or>
     gu_user_id r \<notin> set (t_users db)"

text \<open>
  The library's \<open>batchInsert(table, rows)\<close> is one operation of the gateway, a
  multi-row insert: the rows go in one after the other, all or none.
\<close>

fun insert_rows :: "group_user_row list \<Rightarrow> database \<Rightarrow> error + database" where
  "insert_rows [] db = Inr db"
| "insert_rows (r # rs) db =
     (if gu_violates r db then Inl ConstraintViolation
      else insert_rows rs (db\<lparr>t_group_user := t_group_user db @ [r]\<rparr>))"

definition sql_batch_insert ::
  "group_user_row list \<Rightarrow> database \<Rightarrow> error + unit \<times> database"
where
  "sql_batch_insert rows db =
    (case insert_rows rows db of Inl e \<Rightarrow> Inl e | Inr db' \<Rightarrow> Inr ((), db'))"

text \<open>
  \<open>.whereIn(['group_id', 'user_id'], pairs).delete()\<close>: every row whose pair is
  among \<open>pairs\<close> goes; with no pairs nothing matches.
\<close>

definition sql_where_in_delete ::
  "(int \<times> int) list \<Rightarrow> database \<Rightarrow> error + unit \<times> database"
where
  "sql_where_in_delete pairs db =
    Inr ((), db\<lparr>t_group_user := filter (\<lambda>r. gu_key r \<notin> set pairs) (t_group_user db)\<rparr>)"

subsection \<open>The store\<close>

text \<open>\<open>rows[0]\<close> of a JavaScript array: \<open>undefined\<close> when the array is empty.\<close>

definition at0 :: "'a list \<Rightarrow> 'a option" where
  "at0 xs = (case xs of [] \<Rightarrow> None | x # _ \<Rightarrow> Some x)"

definition rowToGroup :: "group_row option \<Rightarrow> error + Group" where
  "rowToGroup row =
    (case row of
       None \<Rightarrow> Inl (NotFoundError ''No group found'')
     | Some r \<Rightarrow> Inr \<lparr>name = g_name r, description = g_description r, id_group = g_id r,
                      createdAt = g_created_at r, createdBy = g_created_by r\<rparr>)"

definition groupToRow :: "'a IStoreGroup_scheme \<Rightarrow> IStoreGroup" where
  "groupToRow = (\<lambda>user. \<lparr>name = name user, description = description user\<rparr>)"

definition update :: "'a IGroupModel_scheme \<Rightarrow> world \<Rightarrow> (error + Group) \<times> world" where
  "update = (\<lambda>group w.
     case execute Db
            (UpdateReturning GROUPS (id_model group) (name_model group) (description_model group))
            (sql_update_returning (id_model group) (name_model group) (description_model group))
            w of
       (Inl e, w') \<Rightarrow> (Inl e, w')
     | (Inr rows, w') \<Rightarrow> (rowToGroup (at0 rows), w'))"

definition exists :: "int \<Rightarrow> world \<Rightarrow> (error + bool) \<times> world" where
  "exists = (\<lambda>id w.
     case execute Db (RawExists GROUPS id) (sql_exists id) w of
       (Inl e, w') \<Rightarrow> (Inl e, w')
     | (Inr rows, w') \<Rightarrow>
         (case at0 rows of
            None \<Rightarrow> (Inl TypeError, w')
          | Some present \<Rightarrow> (Inr present, w')))"

definition get :: "int \<Rightarrow> world \<Rightarrow> (error + Group) \<times> world" where
  "get = (\<lambda>id w.
     case execute Db (WhereFirst GROUPS id) (sql_where_first id) w of
       (Inl e, w') \<Rightarrow> (Inl e, w')
     | (Inr row, w') \<Rightarrow> (rowToGroup row, w'))"

definition create :: "'a IStoreGroup_scheme \<Rightarrow> world \<Rightarrow> (error + Group) \<times> world" where
  "create = (\<lambda>group w.
     case execute Db (InsertReturning GROUPS (groupToRow group))
            (sql_insert_returning (clock w) (groupToRow group)) w of
       (Inl e, w') \<Rightarrow> (Inl e, w')
     | (Inr row, w') \<Rightarrow> (rowToGroup (at0 row), w'))"

text \<open>\<open>transaction || this.db\<close>\<close>

definition or_db :: "knex option \<Rightarrow> knex" where
  "or_db = (\<lambda>transaction. case transaction of None \<Rightarrow> Db | Some tx \<Rightarrow> tx)"

definition addNewUsersToGroup ::
  "int \<Rightarrow> IGroupUserModel list \<Rightarrow> string \<Rightarrow> knex option \<Rightarrow> world \<Rightarrow> (error + unit) \<times> world"
where
  "addNewUsersToGroup = (\<lambda>groupId users userName transaction w.
     let rows = map (\<lambda>user. \<lparr>gu_group_id = groupId, gu_user_id = id_user (IGroupUserModel.user user),
                              gu_type = type user, gu_created_by = userName\<rparr>) users
     in execute (or_db transaction) (BatchInsert GROUP_USER rows) (sql_batch_insert rows) w)"

definition deleteOldUsersFromGroup ::
  "'a IGroupUser_scheme list \<Rightarrow> knex option \<Rightarrow> world \<Rightarrow> (error + unit) \<times> world"
where
  "deleteOldUsersFromGroup = (\<lambda>deletableUsers transaction w.
     let pairs = map (\<lambda>user. (groupId user, userId user)) deletableUsers
     in execute (or_db transaction) (WhereInDelete GROUP_USER pairs)
          (sql_where_in_delete pairs) w)"

definition updateGroupUsers ::
  "int \<Rightarrow> IGroupUserModel list \<Rightarrow> 'a IGroupUser_scheme list \<Rightarrow> string \<Rightarrow> world
   \<Rightarrow> (error + unit) \<times> world"
where
  "updateGroupUsers = (\<lambda>groupId newUsers deletableUsers userName.
    db_transaction
      (\<lambda>tx w0.
         case addNewUsersToGroup groupId newUsers userName (Some tx) w0 of
           (Inl e, w1) \<Rightarrow> (Inl e, w1)
         | (Inr _, w1) \<Rightarrow> deleteOldUsersFromGroup deletableUsers (Some tx) w1))"

subsection \<open>Notions used to state the properties\<close>

text \<open>No query issued from this world on is hit by a transport fault.\<close>

definition fault_free :: "world \<Rightarrow> bool" where
  "fault_free w \<longleftrightarrow> True \<notin> set (faults w)"

text \<open>The \<open>n\<close>-th query issued from this world on is hit by a transport fault.\<close>

definition fault_at :: "nat \<Rightarrow> world \<Rightarrow> bool" where
  "fault_at n w \<longleftrightarrow> n < length (faults w) \<and> faults w ! n"

text \<open>
  The rows of a batch can all go into table \<open>group_user\<close>: their pairs differ from
  each other and from the pairs in the table, and their groups and users exist.
\<close>

definition accepted :: "group_user_row list \<Rightarrow> database \<Rightarrow> bool" where
  "accepted rows db \<longleftrightarrow>
     distinct (map gu_key rows) \<and>
     (\<forall>r \<in> set rows.
        gu_key r \<notin> gu_key ` set (t_group_user db) \<and>
        gu_group_id r \<in> g_id ` set (t_groups db) \<and>
        gu_user_id r \<in> set (t_users db))"

text \<open>
  The rows \<open>addNewUsersToGroup\<close> builds from its arguments and the pairs
  \<open>deleteOldUsersFromGroup\<close> builds from its argument.
\<close>

definition membership_rows :: "int \<Rightarrow> IGroupUserModel list \<Rightarrow> string \<Rightarrow> group_user_row list" where
  "membership_rows gid us un =
     map (\<lambda>u. \<lparr>gu_group_id = gid, gu_user_id = id_user (user u), gu_type = type u,
                gu_created_by = un\<rparr>) us"

definition removal_pairs :: "'a IGroupUser_scheme list \<Rightarrow> (int \<times> int) list" where
  "removal_pairs ds = map (\<lambda>d. (groupId d, userId d)) ds"

text \<open>
  A small world for the concrete instances: groups 1 (admins) and 2 (staff), users 10
  and 11, user 10 a member of both groups.
\<close>

definition example_db :: database where
  "example_db =
    \<lparr>t_groups =
       [\<lparr>g_id = 1, g_name = ''admins'', g_description = None, g_created_at = 0,
          g_created_by = None\<rparr>,
        \<lparr>g_id = 2, g_name = ''staff'', g_description = Some ''all staff'', g_created_at = 1,
          g_created_by = Some ''root''\<rparr>],
     t_group_user =
       [\<lparr>gu_group_id = 1, gu_user_id = 10, gu_type = ''member'', gu_created_by = ''root''\<rparr>,
        \<lparr>gu_group_id = 2, gu_user_id = 10, gu_type = ''member'', gu_created_by = ''root''\<rparr>],
     t_users = [10, 11],
     groups_id_seq = 3\<rparr>"

definition example_world :: "bool list \<Rightarrow> world" where
  "example_world fs =
    \<lparr>committed = example_db, pending = None, faults = fs, trace = [], clock = 7\<rparr>"

definition owner11 :: IGroupUserModel where
  "owner11 = \<lparr>user = \<lparr>id_user = 11\<rparr>, type = ''owner''\<rparr>"

definition member12 :: IGroupUserModel where
  "member12 = \<lparr>user = \<lparr>id_user = 12\<rparr>, type = ''member''\<rparr>"

text \<open>
  A world with a third user, 12, in which a transaction is open and has not changed
  anything yet.
\<close>

definition example_tx_world :: world where
  "example_tx_world =
    \<lparr>committed = example_db\<lparr>t_users := [10, 11, 12]\<rparr>,
     pending = Some (example_db\<lparr>t_users := [10, 11, 12]\<rparr>),
     faults = [], trace = [Begin], clock = 7\<rparr>"

section \<open>Properties\<close>

subsection \<open>Auxiliary facts\<close>

lemma fault_free_hd: "fault_free w \<Longrightarrow> \<not> (faults w \<noteq> [] \<and> hd (faults w))"
  by (cases "faults w") (auto simp: fault_free_def)

lemma fault_free_tl: "fault_free w \<Longrightarrow> True \<notin> set (tl (faults w))"
  by (cases "faults w") (auto simp: fault_free_def)

lemma fault_free_example [simp]: "fault_free (example_world [])"
  by (simp add: fault_free_def example_world_def)

text \<open>What a successful multi-row insert does, and what its success tells.\<close>

lemma insert_rows_Inr:
  "insert_rows rs db = Inr db' \<Longrightarrow> db' = db\<lparr>t_group_user := t_group_user db @ rs\<rparr>"
proof (induction rs arbitrary: db)
  case Nil
  then show ?case by simp
next
  case (Cons r rs)
  from Cons.prems
  have "insert_rows rs (db\<lparr>t_group_user := t_group_user db @ [r]\<rparr>) = Inr db'"
    by (simp split: if_splits)
  from Cons.IH [OF this] show ?case by simp
qed

lemma insert_rows_error: "insert_rows rs db = Inl e \<Longrightarrow> e = ConstraintViolation"
  by (induction rs arbitrary: db) (auto split: if_splits)

lemma insert_rows_taken:
  "r \<in> set rs \<Longrightarrow> gu_key r \<in> gu_key ` set (t_group_user db) \<Longrightarrow>
   insert_rows rs db = Inl ConstraintViolation"
  by (induction rs arbitrary: db) (auto simp: gu_violates_def)

lemma insert_rows_fresh:
  "insert_rows rs db = Inr db' \<Longrightarrow>
   distinct (map gu_key rs) \<and> gu_key ` set rs \<inter> gu_key ` set (t_group_user db) = {}"
proof (induction rs arbitrary: db)
  case Nil
  then show ?case by simp
next
  case (Cons r rs)
  from Cons.prems have nv: "\<not> gu_violates r db"
    and rest: "insert_rows rs (db\<lparr>t_group_user := t_group_user db @ [r]\<rparr>) = Inr db'"
    by (auto split: if_splits)
  from Cons.IH [OF rest] nv show ?case
    by (auto simp: gu_violates_def)
qed

text \<open>Faults by position, and when a batch is accepted.\<close>

lemma fault_at_0: "(faults w \<noteq> [] \<and> hd (faults w)) = fault_at 0 w"
  by (cases "faults w") (auto simp: fault_at_def)

lemma fault_at_1: "(tl (faults w) \<noteq> [] \<and> hd (tl (faults w))) = fault_at 1 w"
  by (cases "faults w"; cases "tl (faults w)") (auto simp: fault_at_def)

lemma fault_free_at: "fault_free w \<Longrightarrow> \<not> fault_at n w"
  by (auto simp: fault_free_def fault_at_def dest: nth_mem)

lemma accepted_Nil: "accepted [] db"
  by (simp add: accepted_def)

lemma accepted_Cons:
  "accepted (r # rs) db \<longleftrightarrow>
     \<not> gu_violates r db \<and> accepted rs (db\<lparr>t_group_user := t_group_user db @ [r]\<rparr>)"
  by (auto simp: accepted_def gu_violates_def image_iff)

lemma insert_rows_accepted:
  "insert_rows rows db =
     (if accepted rows db then Inr (db\<lparr>t_group_user := t_group_user db @ rows\<rparr>)
      else Inl ConstraintViolation)"
proof (induction rows arbitrary: db)
  case Nil
  show ?case by (simp add: accepted_Nil)
next
  case (Cons r rs)
  show ?case
    by (simp add: accepted_Cons Cons.IH)
qed

text \<open>
  \<open>updateGroupUsers\<close> in one equation: the four ways a call can go (a fault on the
  insert, the insert refused, a fault on the delete, success).
\<close>

lemma updateGroupUsers_eq:
  "updateGroupUsers gid us ds un w =
    (let rows = membership_rows gid us un; pairs = removal_pairs ds;
         ins = Query Tx (BatchInsert GROUP_USER rows);
         del = Query Tx (WhereInDelete GROUP_USER pairs) in
     if faults w \<noteq> [] \<and> hd (faults w) then
       (Inl ConnectivityFailure,
        w\<lparr>pending := None, faults := tl (faults w), trace := trace w @ [Begin, ins, Rollback]\<rparr>)
     else case insert_rows rows (committed w) of
       Inl e \<Rightarrow> (Inl e,
        w\<lparr>pending := None, faults := tl (faults w), trace := trace w @ [Begin, ins, Rollback]\<rparr>)
     | Inr db1 \<Rightarrow>
        if tl (faults w) \<noteq> [] \<and> hd (tl (faults w)) then
          (Inl ConnectivityFailure,
           w\<lparr>pending := None, faults := tl (tl (faults w)),
             trace := trace w @ [Begin, ins, del, Rollback]\<rparr>)
        else
          (Inr (),
           w\<lparr>committed := db1\<lparr>t_group_user := filter (\<lambda>r. gu_key r \<notin> set pairs) (t_group_user db1)\<rparr>,
             pending := None, faults := tl (tl (faults w)),
             trace := trace w @ [Begin, ins, del, Commit]\<rparr>))"
  by (simp add: updateGroupUsers_def db_transaction_def addNewUsersToGroup_def
      deleteOldUsersFromGroup_def execute_def or_db_def Let_def sql_batch_insert_def
      sql_where_in_delete_def membership_rows_def removal_pairs_def split: sum.splits)

lemma updateGroupUsers_fault_free:
  assumes "fault_free w"
  shows "updateGroupUsers gid us ds un w =
    (case insert_rows (membership_rows gid us un) (committed w) of
       Inl e \<Rightarrow> (Inl e,
        w\<lparr>pending := None, faults := tl (faults w),
          trace := trace w @ [Begin, Query Tx (BatchInsert GROUP_USER (membership_rows gid us un)),
                              Rollback]\<rparr>)
     | Inr db1 \<Rightarrow>
        (Inr (),
         w\<lparr>committed := db1\<lparr>t_group_user :=
               filter (\<lambda>r. gu_key r \<notin> set (removal_pairs ds)) (t_group_user db1)\<rparr>,
           pending := None, faults := tl (tl (faults w)),
           trace := trace w @ [Begin, Query Tx (BatchInsert GROUP_USER (membership_rows gid us un)),
                               Query Tx (WhereInDelete GROUP_USER (removal_pairs ds)), Commit]\<rparr>))"
proof -
  have "\<not> (faults w \<noteq> [] \<and> hd (faults w))"
    using assms by (rule fault_free_hd)
  moreover have "\<not> (tl (faults w) \<noteq> [] \<and> hd (tl (faults w)))"
    using fault_free_tl [OF assms] by (cases "tl (faults w)") auto
  ultimately show ?thesis
    unfolding updateGroupUsers_eq Let_def by (simp only: if_False)
qed

lemma updateGroupUsers_keeps_fault_free:
  assumes "fault_free w"
  shows "fault_free (snd (updateGroupUsers gid us ds un w))"
proof -
  have "set (tl (faults w)) \<subseteq> set (faults w)" "set (tl (tl (faults w))) \<subseteq> set (faults w)"
    by (cases "faults w"; cases "tl (faults w)"; auto)+
  with assms show ?thesis
    by (auto simp: updateGroupUsers_eq Let_def fault_free_def split: sum.splits)
qed

text \<open>The example call: make user 11 an owner of group 1 and remove user 10 from it.\<close>

lemma example_insert:
  "insert_rows (membership_rows 1 [owner11] ''sys'') example_db =
     Inr (example_db\<lparr>t_group_user := t_group_user example_db @
       [\<lparr>gu_group_id = 1, gu_user_id = 11, gu_type = ''owner'', gu_created_by = ''sys''\<rparr>]\<rparr>)"
  by (simp add: membership_rows_def owner11_def example_db_def gu_violates_def gu_key_def)

lemma example_accepted: "accepted (membership_rows 1 [owner11] ''sys'') example_db"
  by (simp add: accepted_def membership_rows_def owner11_def example_db_def gu_key_def)

lemma example_call:
  "updateGroupUsers 1 [owner11] [\<lparr>groupId = 1, userId = 10\<rparr>] ''sys'' (example_world []) =
    (Inr (),
     \<lparr>committed = example_db\<lparr>t_group_user :=
         [\<lparr>gu_group_id = 2, gu_user_id = 10, gu_type = ''member'', gu_created_by = ''root''\<rparr>,
          \<lparr>gu_group_id = 1, gu_user_id = 11, gu_type = ''owner'', gu_created_by = ''sys''\<rparr>]\<rparr>,
      pending = None, faults = [],
      trace = [Begin,
         Query Tx (BatchInsert GROUP_USER
           [\<lparr>gu_group_id = 1, gu_user_id = 11, gu_type = ''owner'', gu_created_by = ''sys''\<rparr>]),
         Query Tx (WhereInDelete GROUP_USER [(1, 10)]), Commit],
      clock = 7\<rparr>)"
  by (simp add: updateGroupUsers_eq Let_def example_world_def example_insert removal_pairs_def
      gu_key_def)
    (simp add: example_db_def membership_rows_def owner11_def)

subsection \<open>Reconciliation of a group's members\<close>

text \<open>
  C1. \<open>updateGroupUsers\<close> is atomic. It succeeds exactly when no fault hits its first
  two queries and the batch is accepted. When it succeeds, it has opened one
  transaction, issued on its handle the batch insert and then the delete, and
  committed: the committed table is the old one followed by the new rows, without the
  rows of the removed pairs. When it fails, the committed database is the one before
  the call and no transaction is left open: a fault on the insert or a refused batch
  is followed by the rollback at once, a fault on the delete comes after the insert
  went through and is followed by the rollback as well.
\<close>

theorem updateGroupUsers_atomic:
  "(fst (updateGroupUsers gid us ds un w) = Inr () \<longleftrightarrow>
      \<not> fault_at 0 w \<and> accepted (membership_rows gid us un) (committed w) \<and> \<not> fault_at 1 w) \<and>
   (fst (updateGroupUsers gid us ds un w) = Inr () \<longrightarrow>
      trace (snd (updateGroupUsers gid us ds un w)) =
        trace w @ [Begin, Query Tx (BatchInsert GROUP_USER (membership_rows gid us un)),
                   Query Tx (WhereInDelete GROUP_USER (removal_pairs ds)), Commit] \<and>
      committed (snd (updateGroupUsers gid us ds un w)) =
        (committed w)\<lparr>t_group_user :=
           filter (\<lambda>r. gu_key r \<notin> set (removal_pairs ds))
             (t_group_user (committed w) @ membership_rows gid us un)\<rparr> \<and>
      pending (snd (updateGroupUsers gid us ds un w)) = None) \<and>
   (fst (updateGroupUsers gid us ds un w) \<noteq> Inr () \<longrightarrow>
      committed (snd (updateGroupUsers gid us ds un w)) = committed w \<and>
      pending (snd (updateGroupUsers gid us ds un w)) = None) \<and>
   (fault_at 0 w \<longrightarrow>
      fst (updateGroupUsers gid us ds un w) = Inl ConnectivityFailure \<and>
      trace (snd (updateGroupUsers gid us ds un w)) =
        trace w @ [Begin, Query Tx (BatchInsert GROUP_USER (membership_rows gid us un)),
                   Rollback]) \<and>
   (\<not> fault_at 0 w \<and> \<not> accepted (membership_rows gid us un) (committed w) \<longrightarrow>
      fst (updateGroupUsers gid us ds un w) = Inl ConstraintViolation \<and>
      trace (snd (updateGroupUsers gid us ds un w)) =
        trace w @ [Begin, Query Tx (BatchInsert GROUP_USER (membership_rows gid us un)),
                   Rollback]) \<and>
   (\<not> fault_at 0 w \<and> accepted (membership_rows gid us un) (committed w) \<and> fault_at 1 w \<longrightarrow>
      fst (updateGroupUsers gid us ds un w) = Inl ConnectivityFailure \<and>
      trace (snd (updateGroupUsers gid us ds un w)) =
        trace w @ [Begin, Query Tx (BatchInsert GROUP_USER (membership_rows gid us un)),
                   Query Tx (WhereInDelete GROUP_USER (removal_pairs ds)), Rollback])"
  by (simp add: updateGroupUsers_eq Let_def fault_at_0 fault_at_1 insert_rows_accepted)

text \<open>
  Instances. First the insert of (1, 11) goes through and the transport fails on the
  delete: the call fails, both queries were issued inside the one transaction, which
  was rolled back, and the committed database is the one before the call. Then the same
  call without a fault: both queries, a commit, and the table afterwards.
\<close>

theorem updateGroupUsers_atomic_witness:
  "fst (updateGroupUsers 1 [owner11] [\<lparr>groupId = 1, userId = 10\<rparr>] ''sys''
          (example_world [False, True])) = Inl ConnectivityFailure \<and>
   committed (snd (updateGroupUsers 1 [owner11] [\<lparr>groupId = 1, userId = 10\<rparr>] ''sys''
          (example_world [False, True]))) = example_db \<and>
   trace (snd (updateGroupUsers 1 [owner11] [\<lparr>groupId = 1, userId = 10\<rparr>] ''sys''
          (example_world [False, True]))) =
     [Begin,
      Query Tx (BatchInsert GROUP_USER
        [\<lparr>gu_group_id = 1, gu_user_id = 11, gu_type = ''owner'', gu_created_by = ''sys''\<rparr>]),
      Query Tx (WhereInDelete GROUP_USER [(1, 10)]), Rollback] \<and>
   fst (updateGroupUsers 1 [owner11] [\<lparr>groupId = 1, userId = 10\<rparr>] ''sys''
          (example_world [])) = Inr () \<and>
   trace (snd (updateGroupUsers 1 [owner11] [\<lparr>groupId = 1, userId = 10\<rparr>] ''sys''
          (example_world []))) =
     [Begin,
      Query Tx (BatchInsert GROUP_USER
        [\<lparr>gu_group_id = 1, gu_user_id = 11, gu_type = ''owner'', gu_created_by = ''sys''\<rparr>]),
      Query Tx (WhereInDelete GROUP_USER [(1, 10)]), Commit] \<and>
   t_group_user (committed (snd (updateGroupUsers 1 [owner11] [\<lparr>groupId = 1, userId = 10\<rparr>]
          ''sys'' (example_world [])))) =
     [\<lparr>gu_group_id = 2, gu_user_id = 10, gu_type = ''member'', gu_created_by = ''root''\<rparr>,
      \<lparr>gu_group_id = 1, gu_user_id = 11, gu_type = ''owner'', gu_created_by = ''sys''\<rparr>]"
proof -
  let ?ds = "[\<lparr>groupId = 1, userId = 10\<rparr>]"
  have rows: "membership_rows 1 [owner11] ''sys'' =
      [\<lparr>gu_group_id = 1, gu_user_id = 11, gu_type = ''owner'', gu_created_by = ''sys''\<rparr>]"
    by (simp add: membership_rows_def owner11_def)
  have pairs: "removal_pairs ?ds = [(1, 10)]"
    by (simp add: removal_pairs_def)
  have f: "\<not> fault_at 0 (example_world [False, True])" "fault_at 1 (example_world [False, True])"
    "\<not> fault_at 0 (example_world [])" "\<not> fault_at 1 (example_world [])"
    by (simp_all add: fault_at_def example_world_def)
  have acc: "accepted (membership_rows 1 [owner11] ''sys'') (committed (example_world fs))" for fs
    using example_accepted by (simp add: example_world_def)
  note failing = updateGroupUsers_atomic
    [of 1 "[owner11]" ?ds "''sys''" "example_world [False, True]"]
  note passing = updateGroupUsers_atomic [of 1 "[owner11]" ?ds "''sys''" "example_world []"]
  from failing f(1,2) acc
  have a: "fst (updateGroupUsers 1 [owner11] ?ds ''sys'' (example_world [False, True])) =
        Inl ConnectivityFailure \<and>
      trace (snd (updateGroupUsers 1 [owner11] ?ds ''sys'' (example_world [False, True]))) =
        trace (example_world [False, True]) @
          [Begin, Query Tx (BatchInsert GROUP_USER (membership_rows 1 [owner11] ''sys'')),
           Query Tx (WhereInDelete GROUP_USER (removal_pairs ?ds)), Rollback]"
    by blast
  then have "fst (updateGroupUsers 1 [owner11] ?ds ''sys'' (example_world [False, True])) \<noteq> Inr ()"
    by simp
  with failing
  have b: "committed (snd (updateGroupUsers 1 [owner11] ?ds ''sys'' (example_world [False, True])))
      = committed (example_world [False, True])"
    by blast
  from passing f(3,4) acc
  have ok: "fst (updateGroupUsers 1 [owner11] ?ds ''sys'' (example_world [])) = Inr ()"
    by blast
  with passing
  have c: "trace (snd (updateGroupUsers 1 [owner11] ?ds ''sys'' (example_world []))) =
        trace (example_world []) @
          [Begin, Query Tx (BatchInsert GROUP_USER (membership_rows 1 [owner11] ''sys'')),
           Query Tx (WhereInDelete GROUP_USER (removal_pairs ?ds)), Commit]"
    and d: "committed (snd (updateGroupUsers 1 [owner11] ?ds ''sys'' (example_world []))) =
        (committed (example_world []))\<lparr>t_group_user :=
           filter (\<lambda>r. gu_key r \<notin> set (removal_pairs ?ds))
             (t_group_user (committed (example_world [])) @ membership_rows 1 [owner11] ''sys'')\<rparr>"
    by blast+
  have e: "t_group_user ((committed (example_world []))\<lparr>t_group_user :=
           filter (\<lambda>r. gu_key r \<notin> set (removal_pairs ?ds))
             (t_group_user (committed (example_world [])) @ membership_rows 1 [owner11] ''sys'')\<rparr>)
     = [\<lparr>gu_group_id = 2, gu_user_id = 10, gu_type = ''member'', gu_created_by = ''root''\<rparr>,
        \<lparr>gu_group_id = 1, gu_user_id = 11, gu_type = ''owner'', gu_created_by = ''sys''\<rparr>]"
    by (simp add: example_world_def example_db_def gu_key_def rows pairs)
  from a b ok c d e show ?thesis
    by (simp add: rows pairs example_world_def)
qed

text \<open>
  C2. When the add set and the remove set share no (group, user) pair and
  \<open>updateGroupUsers\<close> succeeds, then for every entry of the add set the committed
  membership table holds the row built from it, every row of that pair carries the
  entry's membership type, and no row of a pair of the remove set is left.
\<close>

theorem updateGroupUsers_post:
  assumes ok: "fst (updateGroupUsers gid us ds un w) = Inr ()"
    and disj: "\<forall>u \<in> set us. \<forall>d \<in> set ds. (gid, id_user (user u)) \<noteq> (groupId d, userId d)"
  shows "(\<forall>u \<in> set us.
            \<lparr>gu_group_id = gid, gu_user_id = id_user (user u), gu_type = type u,
              gu_created_by = un\<rparr>
              \<in> set (t_group_user (committed (snd (updateGroupUsers gid us ds un w)))) \<and>
            (\<forall>row \<in> set (t_group_user (committed (snd (updateGroupUsers gid us ds un w)))).
               gu_group_id row = gid \<and> gu_user_id row = id_user (user u) \<longrightarrow>
               gu_type row = type u)) \<and>
         (\<forall>d \<in> set ds.
            \<forall>row \<in> set (t_group_user (committed (snd (updateGroupUsers gid us ds un w)))).
              \<not> (gu_group_id row = groupId d \<and> gu_user_id row = userId d))"
proof -
  let ?rows = "membership_rows gid us un"
  let ?pairs = "removal_pairs ds"
  let ?tbl = "t_group_user (committed (snd (updateGroupUsers gid us ds un w)))"
  from ok obtain db1 where ins: "insert_rows ?rows (committed w) = Inr db1"
    and tbl: "?tbl = filter (\<lambda>r. gu_key r \<notin> set ?pairs) (t_group_user db1)"
    by (auto simp: updateGroupUsers_eq Let_def split: if_splits sum.splits)
  have db1: "t_group_user db1 = t_group_user (committed w) @ ?rows"
    using insert_rows_Inr [OF ins] by simp
  have fresh: "distinct (map gu_key ?rows)"
    "gu_key ` set ?rows \<inter> gu_key ` set (t_group_user (committed w)) = {}"
    using insert_rows_fresh [OF ins] by simp_all
  have present: "\<lparr>gu_group_id = gid, gu_user_id = id_user (user u), gu_type = type u,
              gu_created_by = un\<rparr> \<in> set ?tbl" if "u \<in> set us" for u
    using that disj by (auto simp: tbl db1 membership_rows_def removal_pairs_def gu_key_def)
  have typed: "gu_type row = type u"
    if u: "u \<in> set us" and row: "row \<in> set ?tbl"
      and k: "gu_group_id row = gid \<and> gu_user_id row = id_user (user u)" for u row
  proof -
    let ?r = "\<lparr>gu_group_id = gid, gu_user_id = id_user (user u), gu_type = type u,
              gu_created_by = un\<rparr>"
    have r: "?r \<in> set ?rows" using u by (auto simp: membership_rows_def)
    have key: "gu_key row = gu_key ?r" using k by (simp add: gu_key_def)
    from row have "row \<in> set (t_group_user (committed w)) \<or> row \<in> set ?rows"
      by (auto simp: tbl db1)
    then show ?thesis
    proof
      assume "row \<in> set (t_group_user (committed w))"
      with fresh(2) r key show ?thesis by (metis IntI emptyE imageI)
    next
      assume "row \<in> set ?rows"
      with fresh(1) r key have "row = ?r"
        by (meson distinct_map inj_onD)
      then show ?thesis by (metis group_user_row.select_convs(3))
    qed
  qed
  have absent: "\<not> (gu_group_id row = groupId d \<and> gu_user_id row = userId d)"
    if "d \<in> set ds" "row \<in> set ?tbl" for d row
    using that by (auto simp: tbl removal_pairs_def gu_key_def)
  from present typed absent show ?thesis by blast
qed

text \<open>
  An instance, the scenario of the specification: group 1 has the member 10; adding 11
  as owner and removing (1, 10) leaves (1, 11, owner) in and (1, 10) out.
\<close>

theorem updateGroupUsers_post_witness:
  "fst (updateGroupUsers 1 [owner11] [\<lparr>groupId = 1, userId = 10\<rparr>] ''sys'' (example_world []))
     = Inr () \<and>
   \<lparr>gu_group_id = 1, gu_user_id = 11, gu_type = ''owner'', gu_created_by = ''sys''\<rparr>
     \<in> set (t_group_user (committed (snd (updateGroupUsers 1 [owner11]
           [\<lparr>groupId = 1, userId = 10\<rparr>] ''sys'' (example_world []))))) \<and>
   \<lparr>gu_group_id = 1, gu_user_id = 10, gu_type = ''member'', gu_created_by = ''root''\<rparr>
     \<notin> set (t_group_user (committed (snd (updateGroupUsers 1 [owner11]
           [\<lparr>groupId = 1, userId = 10\<rparr>] ''sys'' (example_world [])))))"
proof -
  let ?call = "updateGroupUsers 1 [owner11] [\<lparr>groupId = 1, userId = 10\<rparr>] ''sys''
    (example_world [])"
  have ok: "fst ?call = Inr ()"
    by (simp add: example_call)
  have disj: "\<forall>u \<in> set [owner11]. \<forall>d \<in> set [\<lparr>groupId = 1, userId = 10\<rparr>].
      (1, id_user (user u)) \<noteq> (groupId d, userId d)"
    by (simp add: owner11_def)
  from updateGroupUsers_post [OF ok disj]
  have "\<lparr>gu_group_id = 1, gu_user_id = id_user (user owner11), gu_type = type owner11,
          gu_created_by = ''sys''\<rparr> \<in> set (t_group_user (committed (snd ?call)))"
    and "\<forall>row \<in> set (t_group_user (committed (snd ?call))).
          \<not> (gu_group_id row = 1 \<and> gu_user_id row = 10)"
    by simp_all
  with ok show ?thesis
    by (auto simp: owner11_def)
qed

text \<open>
  C3, as stated, fails: when the remove set covers the add set the first call leaves
  nothing behind, and the second call succeeds. Here both calls add (1, 11) and remove
  (1, 11); the value below is the result of the second call.
\<close>

theorem updateGroupUsers_twice_counterexample:
  "fst (updateGroupUsers 1 [owner11] [\<lparr>groupId = 1, userId = 11\<rparr>] ''sys''
     (snd (updateGroupUsers 1 [owner11] [\<lparr>groupId = 1, userId = 11\<rparr>] ''sys''
        (example_world [])))) = Inr ()"
  by (simp add: updateGroupUsers_eq Let_def example_world_def example_insert removal_pairs_def
      gu_key_def)
    (simp add: example_db_def membership_rows_def owner11_def gu_violates_def gu_key_def)

text \<open>
  C3, amended. With the gateway reachable, when some pair of the add set is not in the
  remove set, calling \<open>updateGroupUsers\<close> a second time with the same arguments fails
  with \<open>ConstraintViolation\<close>: that pair is still in the table if the first call
  succeeded, and if the first call was refused the second is refused alike.
\<close>

theorem updateGroupUsers_twice_ConstraintViolation:
  assumes ff: "fault_free w"
    and kept: "\<exists>u \<in> set us. \<forall>d \<in> set ds. (gid, id_user (user u)) \<noteq> (groupId d, userId d)"
  shows "fst (updateGroupUsers gid us ds un (snd (updateGroupUsers gid us ds un w))) =
           Inl ConstraintViolation"
proof -
  let ?rows = "membership_rows gid us un"
  let ?pairs = "removal_pairs ds"
  let ?w1 = "snd (updateGroupUsers gid us ds un w)"
  have ff1: "fault_free ?w1"
    using ff by (rule updateGroupUsers_keeps_fault_free)
  have refused: "insert_rows ?rows (committed ?w1) = Inl ConstraintViolation"
  proof (cases "insert_rows ?rows (committed w)")
    case (Inl e)
    then have "committed ?w1 = committed w"
      by (simp add: updateGroupUsers_fault_free [OF ff])
    with Inl insert_rows_error [OF Inl] show ?thesis by simp
  next
    case (Inr db1)
    from kept obtain u where u: "u \<in> set us"
      and nd: "\<forall>d \<in> set ds. (gid, id_user (user u)) \<noteq> (groupId d, userId d)" by blast
    let ?r = "\<lparr>gu_group_id = gid, gu_user_id = id_user (user u), gu_type = type u,
                gu_created_by = un\<rparr>"
    have r: "?r \<in> set ?rows" using u by (auto simp: membership_rows_def)
    have tbl: "t_group_user (committed ?w1) =
        filter (\<lambda>x. gu_key x \<notin> set ?pairs) (t_group_user (committed w) @ ?rows)"
      using Inr insert_rows_Inr [OF Inr] by (simp add: updateGroupUsers_fault_free [OF ff])
    have "gu_key ?r \<notin> set ?pairs"
      using nd by (auto simp: removal_pairs_def gu_key_def)
    with r have "?r \<in> set (t_group_user (committed ?w1))"
      by (simp add: tbl)
    then have "gu_key ?r \<in> gu_key ` set (t_group_user (committed ?w1))"
      by (rule imageI)
    from insert_rows_taken [OF r this] show ?thesis .
  qed
  show ?thesis
    using refused by (simp add: updateGroupUsers_fault_free [OF ff1])
qed

theorem updateGroupUsers_twice_ConstraintViolation_witness:
  "fst (updateGroupUsers 1 [owner11] [\<lparr>groupId = 1, userId = 10\<rparr>] ''sys''
     (snd (updateGroupUsers 1 [owner11] [\<lparr>groupId = 1, userId = 10\<rparr>] ''sys''
        (example_world [])))) = Inl ConstraintViolation"
proof -
  have kept: "\<exists>u \<in> set [owner11]. \<forall>d \<in> set [\<lparr>groupId = 1, userId = 10\<rparr>].
      (1, id_user (user u)) \<noteq> (groupId d, userId d)"
    by (simp add: owner11_def)
  from updateGroupUsers_twice_ConstraintViolation [OF fault_free_example kept]
  show ?thesis .
qed

text \<open>
  C6. \<open>addNewUsersToGroup\<close> issues exactly one query, a batch insert into
  \<open>group_user\<close> of one row per entry of \<open>users\<close>, in order, each with the target
  group, the entry's user id and type, and \<open>userName\<close> as \<open>created_by\<close>; the query
  goes to the transaction handle if one is given and to the store's connection
  otherwise. The call succeeds exactly when no fault hits the query, the handle is
  usable and the batch is accepted; then the table it ran on is the old one followed
  by these rows. When it fails that table is unchanged. On a transaction handle the
  committed database is untouched.
\<close>

theorem addNewUsersToGroup_batch:
  "trace (snd (addNewUsersToGroup gid us un tx w)) =
     trace w @ [Query (or_db tx) (BatchInsert GROUP_USER
       (map (\<lambda>u. \<lparr>gu_group_id = gid, gu_user_id = id_user (user u), gu_type = type u,
                  gu_created_by = un\<rparr>) us))] \<and>
   (fst (addNewUsersToGroup gid us un tx w) = Inr () \<longleftrightarrow>
      \<not> fault_at 0 w \<and>
      (\<exists>db. view (or_db tx) w = Some db \<and>
         accepted (map (\<lambda>u. \<lparr>gu_group_id = gid, gu_user_id = id_user (user u), gu_type = type u,
                             gu_created_by = un\<rparr>) us) db)) \<and>
   (fst (addNewUsersToGroup gid us un tx w) = Inr () \<longrightarrow>
      (\<exists>db. view (or_db tx) w = Some db \<and>
            view (or_db tx) (snd (addNewUsersToGroup gid us un tx w)) =
              Some (db\<lparr>t_group_user := t_group_user db @
                (map (\<lambda>u. \<lparr>gu_group_id = gid, gu_user_id = id_user (user u), gu_type = type u,
                           gu_created_by = un\<rparr>) us)\<rparr>))) \<and>
   (fst (addNewUsersToGroup gid us un tx w) \<noteq> Inr () \<longrightarrow>
      view (or_db tx) (snd (addNewUsersToGroup gid us un tx w)) = view (or_db tx) w) \<and>
   (or_db tx = Tx \<longrightarrow> committed (snd (addNewUsersToGroup gid us un tx w)) = committed w) \<and>
   (or_db tx = Db \<longrightarrow> pending (snd (addNewUsersToGroup gid us un tx w)) = pending w)"
  by (cases "or_db tx"; cases "pending w")
     (simp_all add: addNewUsersToGroup_def execute_def Let_def view_def sql_batch_insert_def
        fault_at_0 insert_rows_accepted)

text \<open>
  An instance: two users added to group 1 on the handle of an open transaction, in one
  query; both rows are in the transaction's working copy, the committed database is
  as before.
\<close>

theorem addNewUsersToGroup_batch_witness:
  "fst (addNewUsersToGroup 1 [owner11, member12] ''sys'' (Some Tx) example_tx_world) = Inr () \<and>
   trace (snd (addNewUsersToGroup 1 [owner11, member12] ''sys'' (Some Tx) example_tx_world)) =
     [Begin,
      Query Tx (BatchInsert GROUP_USER
        [\<lparr>gu_group_id = 1, gu_user_id = 11, gu_type = ''owner'', gu_created_by = ''sys''\<rparr>,
         \<lparr>gu_group_id = 1, gu_user_id = 12, gu_type = ''member'', gu_created_by = ''sys''\<rparr>])] \<and>
   pending (snd (addNewUsersToGroup 1 [owner11, member12] ''sys'' (Some Tx) example_tx_world)) =
     Some (example_db\<lparr>t_users := [10, 11, 12],
       t_group_user := t_group_user example_db @
        [\<lparr>gu_group_id = 1, gu_user_id = 11, gu_type = ''owner'', gu_created_by = ''sys''\<rparr>,
         \<lparr>gu_group_id = 1, gu_user_id = 12, gu_type = ''member'', gu_created_by = ''sys''\<rparr>]\<rparr>) \<and>
   committed (snd (addNewUsersToGroup 1 [owner11, member12] ''sys'' (Some Tx) example_tx_world)) =
     example_db\<lparr>t_users := [10, 11, 12]\<rparr>"
proof -
  let ?rows = "map (\<lambda>u. \<lparr>gu_group_id = 1, gu_user_id = id_user (user u), gu_type = type u,
                         gu_created_by = ''sys''\<rparr>) [owner11, member12]"
  let ?r = "addNewUsersToGroup 1 [owner11, member12] ''sys'' (Some Tx) example_tx_world"
  have rows: "?rows =
        [\<lparr>gu_group_id = 1, gu_user_id = 11, gu_type = ''owner'', gu_created_by = ''sys''\<rparr>,
         \<lparr>gu_group_id = 1, gu_user_id = 12, gu_type = ''member'', gu_created_by = ''sys''\<rparr>]"
    by (simp add: owner11_def member12_def)
  have h: "or_db (Some Tx) = Tx"
    by (simp add: or_db_def)
  have v: "view Tx example_tx_world = Some (example_db\<lparr>t_users := [10, 11, 12]\<rparr>)"
    by (simp add: view_def example_tx_world_def)
  have acc: "accepted ?rows (example_db\<lparr>t_users := [10, 11, 12]\<rparr>)"
    unfolding rows by (simp add: accepted_def example_db_def gu_key_def)
  have nf: "\<not> fault_at 0 example_tx_world"
    by (simp add: fault_at_def example_tx_world_def)
  note T = addNewUsersToGroup_batch [of 1 "[owner11, member12]" "''sys''" "Some Tx"
      example_tx_world, unfolded h]
  from T nf v acc have ok: "fst ?r = Inr ()"
    by blast
  with T v have p: "view Tx (snd ?r) =
      Some (example_db\<lparr>t_users := [10, 11, 12]\<rparr>\<lparr>t_group_user :=
        t_group_user (example_db\<lparr>t_users := [10, 11, 12]\<rparr>) @ ?rows\<rparr>)"
    by auto
  from T have tr: "trace (snd ?r) =
      trace example_tx_world @ [Query Tx (BatchInsert GROUP_USER ?rows)]"
    and c: "committed (snd ?r) = committed example_tx_world"
    by blast+
  from ok p tr c show ?thesis
    unfolding rows by (simp add: view_def example_tx_world_def)
qed

text \<open>
  C7. \<open>deleteOldUsersFromGroup\<close> issues exactly one query, a delete on \<open>group_user\<close>
  restricted to the (groupId, userId) pairs of \<open>deletableUsers\<close>. The call succeeds
  exactly when no fault hits the query and the handle is usable; then the table it
  ran on has lost exactly the rows whose pair matches some entry. When it fails that
  table is unchanged. The group of an entry is the entry's own: after a successful
  \<open>updateGroupUsers\<close> for group \<open>gid\<close> no row of any removal record is left,
  whatever its group.
\<close>

theorem deleteOldUsersFromGroup_set_delete:
  "trace (snd (deleteOldUsersFromGroup ds tx w)) =
     trace w @ [Query (or_db tx)
       (WhereInDelete GROUP_USER (map (\<lambda>d. (groupId d, userId d)) ds))] \<and>
   (fst (deleteOldUsersFromGroup ds tx w) = Inr () \<longleftrightarrow>
      \<not> fault_at 0 w \<and> view (or_db tx) w \<noteq> None) \<and>
   (fst (deleteOldUsersFromGroup ds tx w) = Inr () \<longrightarrow>
      (\<exists>db. view (or_db tx) w = Some db \<and>
            view (or_db tx) (snd (deleteOldUsersFromGroup ds tx w)) =
              Some (db\<lparr>t_group_user :=
                filter (\<lambda>row. \<not> (\<exists>d \<in> set ds.
                                   gu_group_id row = groupId d \<and> gu_user_id row = userId d))
                  (t_group_user db)\<rparr>))) \<and>
   (fst (deleteOldUsersFromGroup ds tx w) \<noteq> Inr () \<longrightarrow>
      view (or_db tx) (snd (deleteOldUsersFromGroup ds tx w)) = view (or_db tx) w) \<and>
   (or_db tx = Tx \<longrightarrow> committed (snd (deleteOldUsersFromGroup ds tx w)) = committed w) \<and>
   (or_db tx = Db \<longrightarrow> pending (snd (deleteOldUsersFromGroup ds tx w)) = pending w) \<and>
   (fst (updateGroupUsers gid us ds un w) = Inr () \<longrightarrow>
      (\<forall>d \<in> set ds.
         \<forall>row \<in> set (t_group_user (committed (snd (updateGroupUsers gid us ds un w)))).
           \<not> (gu_group_id row = groupId d \<and> gu_user_id row = userId d)))"
proof -
  let ?r = "deleteOldUsersFromGroup ds tx w"
  let ?pairs = "map (\<lambda>d. (groupId d, userId d)) ds"
  have same: "(\<lambda>row. gu_key row \<notin> set ?pairs) =
      (\<lambda>row. \<not> (\<exists>d \<in> set ds. gu_group_id row = groupId d \<and> gu_user_id row = userId d))"
    by (auto simp: gu_key_def fun_eq_iff)
  have direct: "trace (snd ?r) = trace w @ [Query (or_db tx) (WhereInDelete GROUP_USER ?pairs)] \<and>
   (fst ?r = Inr () \<longleftrightarrow> \<not> fault_at 0 w \<and> view (or_db tx) w \<noteq> None) \<and>
   (fst ?r = Inr () \<longrightarrow>
      (\<exists>db. view (or_db tx) w = Some db \<and>
            view (or_db tx) (snd ?r) =
              Some (db\<lparr>t_group_user := filter (\<lambda>row. gu_key row \<notin> set ?pairs) (t_group_user db)\<rparr>))) \<and>
   (fst ?r \<noteq> Inr () \<longrightarrow> view (or_db tx) (snd ?r) = view (or_db tx) w) \<and>
   (or_db tx = Tx \<longrightarrow> committed (snd ?r) = committed w) \<and>
   (or_db tx = Db \<longrightarrow> pending (snd ?r) = pending w)"
    by (cases "or_db tx"; cases "pending w")
       (simp_all add: deleteOldUsersFromGroup_def execute_def Let_def view_def
          sql_where_in_delete_def fault_at_0)
  have rec: "\<forall>d \<in> set ds.
         \<forall>row \<in> set (t_group_user (committed (snd (updateGroupUsers gid us ds un w)))).
           \<not> (gu_group_id row = groupId d \<and> gu_user_id row = userId d)"
    if "fst (updateGroupUsers gid us ds un w) = Inr ()"
    using that
    by (auto simp: updateGroupUsers_eq Let_def removal_pairs_def gu_key_def
        split: if_splits sum.splits)
  from direct [unfolded same] rec show ?thesis by blast
qed

text \<open>
  Instances: two removal records, for groups 1 and 2, deleted by one query on the
  handle of an open transaction; and a reconciliation of group 1 that adds user 11 and
  whose removal records name groups 1 and 2, after which user 10 is in neither group.
\<close>

theorem deleteOldUsersFromGroup_set_delete_witness:
  "fst (deleteOldUsersFromGroup [\<lparr>groupId = 1, userId = 10\<rparr>, \<lparr>groupId = 2, userId = 10\<rparr>]
          (Some Tx) example_tx_world) = Inr () \<and>
   trace (snd (deleteOldUsersFromGroup [\<lparr>groupId = 1, userId = 10\<rparr>, \<lparr>groupId = 2, userId = 10\<rparr>]
          (Some Tx) example_tx_world)) =
     [Begin, Query Tx (WhereInDelete GROUP_USER [(1, 10), (2, 10)])] \<and>
   pending (snd (deleteOldUsersFromGroup [\<lparr>groupId = 1, userId = 10\<rparr>, \<lparr>groupId = 2, userId = 10\<rparr>]
          (Some Tx) example_tx_world)) =
     Some (example_db\<lparr>t_users := [10, 11, 12], t_group_user := []\<rparr>) \<and>
   fst (updateGroupUsers 1 [owner11] [\<lparr>groupId = 1, userId = 10\<rparr>, \<lparr>groupId = 2, userId = 10\<rparr>]
          ''sys'' (example_world [])) = Inr () \<and>
   \<lparr>gu_group_id = 2, gu_user_id = 10, gu_type = ''member'', gu_created_by = ''root''\<rparr>
     \<notin> set (t_group_user (committed (snd (updateGroupUsers 1 [owner11]
           [\<lparr>groupId = 1, userId = 10\<rparr>, \<lparr>groupId = 2, userId = 10\<rparr>] ''sys''
           (example_world []))))) \<and>
   \<lparr>gu_group_id = 1, gu_user_id = 10, gu_type = ''member'', gu_created_by = ''root''\<rparr>
     \<notin> set (t_group_user (committed (snd (updateGroupUsers 1 [owner11]
           [\<lparr>groupId = 1, userId = 10\<rparr>, \<lparr>groupId = 2, userId = 10\<rparr>] ''sys''
           (example_world [])))))"
proof -
  let ?ds = "[\<lparr>groupId = 1, userId = 10\<rparr>, \<lparr>groupId = 2, userId = 10\<rparr>]"
  let ?r = "deleteOldUsersFromGroup ?ds (Some Tx) example_tx_world"
  let ?call = "updateGroupUsers 1 [owner11] ?ds ''sys'' (example_world [])"
  have h: "or_db (Some Tx) = Tx"
    by (simp add: or_db_def)
  have v: "view Tx example_tx_world = Some (example_db\<lparr>t_users := [10, 11, 12]\<rparr>)"
    by (simp add: view_def example_tx_world_def)
  have nf: "\<not> fault_at 0 example_tx_world"
    by (simp add: fault_at_def example_tx_world_def)
  note T = deleteOldUsersFromGroup_set_delete [of ?ds "Some Tx" example_tx_world 1 "[owner11]"
      "''sys''", unfolded h]
  from T nf v have ok: "fst ?r = Inr ()"
    by simp
  with T v have p: "view Tx (snd ?r) =
      Some (example_db\<lparr>t_users := [10, 11, 12]\<rparr>\<lparr>t_group_user :=
        filter (\<lambda>row. \<not> (\<exists>d \<in> set ?ds. gu_group_id row = groupId d \<and> gu_user_id row = userId d))
          (t_group_user (example_db\<lparr>t_users := [10, 11, 12]\<rparr>))\<rparr>)"
    by auto
  from T have tr: "trace (snd ?r) = trace example_tx_world @
      [Query Tx (WhereInDelete GROUP_USER (map (\<lambda>d. (groupId d, userId d)) ?ds))]"
    by blast
  have "committed (example_world []) = example_db"
    by (simp add: example_world_def)
  then have ok2: "fst ?call = Inr ()"
    by (simp add: updateGroupUsers_fault_free example_insert)
  from deleteOldUsersFromGroup_set_delete [of ?ds None "example_world []" 1 "[owner11]" "''sys''"]
    ok2
  have gone: "\<forall>d \<in> set ?ds. \<forall>row \<in> set (t_group_user (committed (snd ?call))).
      \<not> (gu_group_id row = groupId d \<and> gu_user_id row = userId d)"
    by blast
  from ok p tr ok2 gone show ?thesis
    by (auto simp: view_def example_tx_world_def example_db_def)
qed

text \<open>
  C8. Frame of \<open>updateGroupUsers\<close>, whatever its outcome: tables \<open>groups\<close> and
  \<open>users\<close>, the identifier sequence and the clock are as before; the membership rows
  whose pair is neither a pair of the add set (for the target group) nor a pair of the
  remove set are the same rows in the same order; and what the call asked of the
  gateway is one transaction holding the batch insert on \<open>group_user\<close>, followed or
  not by the delete on \<open>group_user\<close>, and nothing else.
\<close>

theorem updateGroupUsers_frame:
  "t_groups (committed (snd (updateGroupUsers gid us ds un w))) = t_groups (committed w) \<and>
   t_users (committed (snd (updateGroupUsers gid us ds un w))) = t_users (committed w) \<and>
   groups_id_seq (committed (snd (updateGroupUsers gid us ds un w))) =
     groups_id_seq (committed w) \<and>
   clock (snd (updateGroupUsers gid us ds un w)) = clock w \<and>
   filter (\<lambda>row. (gu_group_id row, gu_user_id row) \<notin> (\<lambda>u. (gid, id_user (user u))) ` set us \<and>
                  (gu_group_id row, gu_user_id row) \<notin> (\<lambda>d. (groupId d, userId d)) ` set ds)
      (t_group_user (committed (snd (updateGroupUsers gid us ds un w)))) =
   filter (\<lambda>row. (gu_group_id row, gu_user_id row) \<notin> (\<lambda>u. (gid, id_user (user u))) ` set us \<and>
                  (gu_group_id row, gu_user_id row) \<notin> (\<lambda>d. (groupId d, userId d)) ` set ds)
      (t_group_user (committed w)) \<and>
   drop (length (trace w)) (trace (snd (updateGroupUsers gid us ds un w))) \<in>
     {[Begin, Query Tx (BatchInsert GROUP_USER (membership_rows gid us un)), Rollback],
      [Begin, Query Tx (BatchInsert GROUP_USER (membership_rows gid us un)),
       Query Tx (WhereInDelete GROUP_USER (removal_pairs ds)), Rollback],
      [Begin, Query Tx (BatchInsert GROUP_USER (membership_rows gid us un)),
       Query Tx (WhereInDelete GROUP_USER (removal_pairs ds)), Commit]}"
proof -
  let ?r = "updateGroupUsers gid us ds un w"
  let ?rows = "membership_rows gid us un"
  let ?keep = "\<lambda>row. (gu_group_id row, gu_user_id row) \<notin> (\<lambda>u. (gid, id_user (user u))) ` set us \<and>
                  (gu_group_id row, gu_user_id row) \<notin> (\<lambda>d. (groupId d, userId d)) ` set ds"
  have other: "t_groups (committed (snd ?r)) = t_groups (committed w) \<and>
      t_users (committed (snd ?r)) = t_users (committed w) \<and>
      groups_id_seq (committed (snd ?r)) = groups_id_seq (committed w) \<and>
      clock (snd ?r) = clock w"
    by (auto simp: updateGroupUsers_eq Let_def split: sum.splits dest!: insert_rows_Inr)
  have new: "filter ?keep ?rows = []"
    by (auto simp: membership_rows_def filter_empty_conv)
  have "t_group_user (committed (snd ?r)) = t_group_user (committed w) \<or>
        t_group_user (committed (snd ?r)) =
          filter (\<lambda>x. gu_key x \<notin> set (removal_pairs ds)) (t_group_user (committed w) @ ?rows)"
    by (auto simp: updateGroupUsers_eq Let_def split: sum.splits dest!: insert_rows_Inr)
  then have rows: "filter ?keep (t_group_user (committed (snd ?r))) =
      filter ?keep (t_group_user (committed w))"
  proof
    assume "t_group_user (committed (snd ?r)) = t_group_user (committed w)"
    then show ?thesis by simp
  next
    assume a: "t_group_user (committed (snd ?r)) =
          filter (\<lambda>x. gu_key x \<notin> set (removal_pairs ds)) (t_group_user (committed w) @ ?rows)"
    have "filter ?keep (filter (\<lambda>x. gu_key x \<notin> set (removal_pairs ds)) xs) = filter ?keep xs"
      for xs
      by (induction xs) (auto simp: removal_pairs_def gu_key_def)
    with a new show ?thesis by simp
  qed
  have tr: "drop (length (trace w)) (trace (snd ?r)) \<in>
     {[Begin, Query Tx (BatchInsert GROUP_USER ?rows), Rollback],
      [Begin, Query Tx (BatchInsert GROUP_USER ?rows),
       Query Tx (WhereInDelete GROUP_USER (removal_pairs ds)), Rollback],
      [Begin, Query Tx (BatchInsert GROUP_USER ?rows),
       Query Tx (WhereInDelete GROUP_USER (removal_pairs ds)), Commit]}"
    by (auto simp: updateGroupUsers_eq Let_def split: sum.splits)
  from other rows tr show ?thesis by blast
qed

text \<open>
  An instance: in the example call the two groups are untouched and so is the
  membership (2, 10), which is in neither set.
\<close>

theorem updateGroupUsers_frame_witness:
  "t_groups (committed (snd (updateGroupUsers 1 [owner11] [\<lparr>groupId = 1, userId = 10\<rparr>] ''sys''
      (example_world [])))) = t_groups example_db \<and>
   t_users (committed (snd (updateGroupUsers 1 [owner11] [\<lparr>groupId = 1, userId = 10\<rparr>] ''sys''
      (example_world [])))) = [10, 11] \<and>
   filter (\<lambda>row. (gu_group_id row, gu_user_id row) \<notin> {(1, 11), (1, 10)})
     (t_group_user (committed (snd (updateGroupUsers 1 [owner11]
        [\<lparr>groupId = 1, userId = 10\<rparr>] ''sys'' (example_world []))))) =
     [\<lparr>gu_group_id = 2, gu_user_id = 10, gu_type = ''member'', gu_created_by = ''root''\<rparr>]"
  using updateGroupUsers_frame [of 1 "[owner11]" "[\<lparr>groupId = 1, userId = 10\<rparr>]" "''sys''"
      "example_world []"]
  by (simp add: example_world_def example_db_def owner11_def)

subsection \<open>Single groups\<close>

text \<open>
  C4. When table \<open>groups\<close> has no row with identifier \<open>i\<close>, \<open>get i\<close> never returns a
  group; if the gateway is reachable it fails with \<open>NotFoundError\<close> and \<open>exists i\<close>
  returns \<open>false\<close>.
\<close>

theorem get_absent_NotFound:
  assumes "\<forall>r \<in> set (t_groups (committed w)). g_id r \<noteq> i"
  shows "(\<forall>g. fst (get i w) \<noteq> Inr g) \<and>
         (fault_free w \<longrightarrow> fst (get i w) = Inl (NotFoundError ''No group found'') \<and>
            fst (exists i w) = Inr False)"
proof -
  have none: "filter (\<lambda>r. g_id r = i) (t_groups (committed w)) = []"
    using assms by (simp add: filter_empty_conv)
  have a: "\<forall>g. fst (get i w) \<noteq> Inr g"
    by (simp add: get_def execute_def sql_where_first_def rowToGroup_def none Let_def)
  have b: "fst (get i w) = Inl (NotFoundError ''No group found'')" if "fault_free w"
    using fault_free_hd [OF that]
    by (auto simp add: get_def execute_def sql_where_first_def rowToGroup_def none Let_def)
  have c: "fst (exists i w) = Inr False" if "fault_free w"
    using fault_free_hd [OF that] assms
    by (auto simp add: exists_def execute_def sql_exists_def at0_def Let_def)
  from a b c show ?thesis by blast
qed

theorem get_absent_NotFound_witness:
  "fst (get 5 (example_world [])) = Inl (NotFoundError ''No group found'') \<and>
   fst (exists 5 (example_world [])) = Inr False"
proof -
  have absent: "\<forall>r \<in> set (t_groups (committed (example_world []))). g_id r \<noteq> 5"
    by (simp add: example_world_def example_db_def)
  from get_absent_NotFound [OF absent] fault_free_example show ?thesis
    by blast
qed

text \<open>
  C5. With the gateway reachable, \<open>create g\<close> succeeds exactly when no group holds
  the name of \<open>g\<close> (and the next identifier of the sequence is free, as it is for a
  system-assigned identifier): these are the valid groups. When \<open>create g\<close> succeeds
  and returns \<open>G\<close>, then \<open>get\<close> of \<open>G\<close>'s identifier returns \<open>G\<close> again, and \<open>G\<close> has the
  name and the description of \<open>g\<close>.
\<close>

theorem create_get_roundtrip:
  assumes ff: "fault_free w"
  shows "((\<exists>G. fst (create g w) = Inr G) \<longleftrightarrow>
            (\<forall>x \<in> set (t_groups (committed w)).
               g_id x \<noteq> groups_id_seq (committed w) \<and> g_name x \<noteq> name g)) \<and>
         (\<forall>G. fst (create g w) = Inr G \<longrightarrow>
            fst (get (id_group G) (snd (create g w))) = Inr G \<and>
            name G = name g \<and> description G = description g)"
proof -
  let ?r = "\<lparr>g_id = groups_id_seq (committed w), g_name = name g, g_description = description g,
             g_created_at = clock w, g_created_by = None\<rparr>"
  have nf: "\<not> (faults w \<noteq> [] \<and> hd (faults w))"
    using ff by (rule fault_free_hd)
  have nf': "\<not> (tl (faults w) \<noteq> [] \<and> hd (tl (faults w)))"
    using fault_free_tl [OF ff] by (cases "tl (faults w)") auto
  have accept: "(\<exists>G. fst (create g w) = Inr G) \<longleftrightarrow>
      (\<forall>x \<in> set (t_groups (committed w)).
         g_id x \<noteq> groups_id_seq (committed w) \<and> g_name x \<noteq> name g)"
    using nf
    by (auto simp: create_def execute_def sql_insert_returning_def groupToRow_def Let_def
        rowToGroup_def at0_def)
  have again: "fst (get (id_group G) (snd (create g w))) = Inr G \<and>
      name G = name g \<and> description G = description g"
    if ok: "fst (create g w) = Inr G" for G
  proof -
    from ok nf
    have fresh: "\<not> (\<exists>x \<in> set (t_groups (committed w)). g_id x = g_id ?r \<or> g_name x = g_name ?r)"
      by (auto simp: create_def execute_def sql_insert_returning_def groupToRow_def Let_def
          split: if_splits)
    with ok nf have G: "G = \<lparr>name = name g, description = description g,
          id_group = groups_id_seq (committed w), createdAt = clock w, createdBy = None\<rparr>"
      and tbl: "t_groups (committed (snd (create g w))) = t_groups (committed w) @ [?r]"
      and fs: "faults (snd (create g w)) = tl (faults w)"
      by (auto simp: create_def execute_def sql_insert_returning_def groupToRow_def Let_def
          rowToGroup_def at0_def split: if_splits)
    from fresh
    have none: "filter (\<lambda>r. g_id r = groups_id_seq (committed w)) (t_groups (committed w)) = []"
      by (auto simp: filter_empty_conv)
    have "fst (get (id_group G) (snd (create g w))) = Inr G"
      using nf'
      by (simp add: get_def execute_def sql_where_first_def Let_def fs tbl none G rowToGroup_def)
    with G show ?thesis by simp
  qed
  from accept again show ?thesis by blast
qed

text \<open>Instances: a group without a description and a group with one.\<close>

theorem create_get_roundtrip_witness:
  "(\<exists>G. fst (create \<lparr>name = ''devs'', description = None\<rparr> (example_world [])) = Inr G \<and>
        fst (get (id_group G)
              (snd (create \<lparr>name = ''devs'', description = None\<rparr> (example_world [])))) = Inr G \<and>
        name G = ''devs'' \<and> description G = None) \<and>
   (\<exists>G. fst (create \<lparr>name = ''ops'', description = Some ''operations''\<rparr> (example_world []))
          = Inr G \<and>
        fst (get (id_group G)
              (snd (create \<lparr>name = ''ops'', description = Some ''operations''\<rparr>
                      (example_world [])))) = Inr G \<and>
        name G = ''ops'' \<and> description G = Some ''operations'')"
proof -
  have free: "\<forall>x \<in> set (t_groups (committed (example_world []))).
      g_id x \<noteq> groups_id_seq (committed (example_world [])) \<and>
      g_name x \<noteq> name \<lparr>name = n, description = d\<rparr>"
    if "n \<noteq> ''admins''" "n \<noteq> ''staff''" for n d
    using that by (simp add: example_world_def example_db_def)
  have a: "\<exists>G. fst (create \<lparr>name = n, description = d\<rparr> (example_world [])) = Inr G \<and>
        fst (get (id_group G) (snd (create \<lparr>name = n, description = d\<rparr> (example_world []))))
          = Inr G \<and>
        name G = n \<and> description G = d"
    if "n \<noteq> ''admins''" "n \<noteq> ''staff''" for n d
    using create_get_roundtrip [OF fault_free_example, of "\<lparr>name = n, description = d\<rparr>"]
      free [OF that]
    by (metis IStoreGroup.select_convs(1) IStoreGroup.select_convs(2))
  from a [of "''devs''" None] a [of "''ops''" "Some ''operations''"] show ?thesis
    by simp
qed

text \<open>
  C9. \<open>create\<close> writes the name and the description of its argument and nothing else
  of it: changing the argument's \<open>createdBy\<close>, or cutting the argument down to its
  name and description, changes neither the result nor the world after the call; and
  when \<open>create\<close> succeeds, the row it has appended holds the name and the description
  and no creator, and the group it returns has no creator.
\<close>

theorem create_discards_createdBy:
  fixes g :: "'a Group_scheme"
  shows "create (g\<lparr>createdBy := c\<rparr>) w = create g w \<and>
         create (IStoreGroup.truncate g) w = create g w \<and>
         (\<forall>G. fst (create g w) = Inr G \<longrightarrow>
            createdBy G = None \<and>
            t_groups (committed (snd (create g w))) = t_groups (committed w) @
              [\<lparr>g_id = id_group G, g_name = name g, g_description = description g,
                g_created_at = clock w, g_created_by = None\<rparr>])"
proof -
  have a: "create (g\<lparr>createdBy := c\<rparr>) w = create g w"
    by (simp add: create_def groupToRow_def)
  have b: "create (IStoreGroup.truncate g) w = create g w"
    by (simp add: create_def groupToRow_def IStoreGroup.truncate_def)
  have c: "createdBy G = None \<and>
            t_groups (committed (snd (create g w))) = t_groups (committed w) @
              [\<lparr>g_id = id_group G, g_name = name g, g_description = description g,
                g_created_at = clock w, g_created_by = None\<rparr>]"
    if "fst (create g w) = Inr G" for G
    using that
    by (auto simp: create_def execute_def sql_insert_returning_def groupToRow_def Let_def
        rowToGroup_def at0_def split: if_splits)
  from a b c show ?thesis by blast
qed

text \<open>An instance: a group supplied with the creator \<open>alice\<close> is stored without one.\<close>

theorem create_discards_createdBy_witness:
  "fst (create \<lparr>name = ''devs'', description = None, id_group = 99, createdAt = 0,
                createdBy = Some ''alice''\<rparr> (example_world [])) =
     Inr \<lparr>name = ''devs'', description = None, id_group = 3, createdAt = 7, createdBy = None\<rparr> \<and>
   t_groups (committed (snd (create \<lparr>name = ''devs'', description = None, id_group = 99,
                createdAt = 0, createdBy = Some ''alice''\<rparr> (example_world [])))) =
     t_groups example_db @
       [\<lparr>g_id = 3, g_name = ''devs'', g_description = None, g_created_at = 7,
          g_created_by = None\<rparr>]"
proof -
  let ?g = "\<lparr>name = ''devs'', description = None, id_group = 99, createdAt = 0,
                createdBy = Some ''alice''\<rparr>"
  have ok: "fst (create ?g (example_world [])) =
      Inr \<lparr>name = ''devs'', description = None, id_group = 3, createdAt = 7, createdBy = None\<rparr>"
    by (simp add: create_def execute_def sql_insert_returning_def groupToRow_def Let_def
        rowToGroup_def at0_def example_world_def example_db_def)
  from create_discards_createdBy [where g = ?g and w = "example_world []"] ok
  show ?thesis
    by (simp add: example_world_def)
qed

text \<open>
  C10, as stated, fails in its second half. Group 2 exists and is updated with a new
  name and no description (\<open>undefined\<close>): the group that \<open>update\<close> returns has the
  description that was stored, which is not the description of the argument.
\<close>

theorem update_undefined_description_counterexample:
  "fst (update \<lparr>id_model = 2, name_model = ''crew'', description_model = Undefined\<rparr>
          (example_world [])) =
     Inr \<lparr>name = ''crew'', description = Some ''all staff'', id_group = 2, createdAt = 1,
          createdBy = Some ''root''\<rparr>"
  by (simp add: update_def execute_def sql_update_returning_def example_world_def example_db_def
      Let_def at0_def rowToGroup_def)

text \<open>
  C10, amended. With the gateway reachable: when no row of \<open>groups\<close> has the
  identifier of the group, \<open>update\<close> fails with \<open>NotFoundError\<close>. When such a row exists
  and another group holds the new name, \<open>update\<close> fails with \<open>ConstraintViolation\<close>.
  When such a row exists and no other group holds the new name, \<open>update\<close> returns the
  group with that identifier and the new name; its description is the new one when the
  argument has one, none when the argument's is \<open>null\<close>, and the stored one when the
  argument's is \<open>undefined\<close>; the row is stored as returned.
\<close>

theorem update_result:
  assumes ff: "fault_free w"
  shows "((\<forall>r \<in> set (t_groups (committed w)). g_id r \<noteq> id_model g) \<longrightarrow>
            fst (update g w) = Inl (NotFoundError ''No group found'')) \<and>
         ((\<exists>r \<in> set (t_groups (committed w)). g_id r = id_model g) \<and>
          (\<exists>x \<in> set (t_groups (committed w)). g_id x \<noteq> id_model g \<and> g_name x = name_model g) \<longrightarrow>
            fst (update g w) = Inl ConstraintViolation) \<and>
         (\<forall>r rs. filter (\<lambda>x. g_id x = id_model g) (t_groups (committed w)) = r # rs \<and>
            (\<forall>x \<in> set (t_groups (committed w)).
               g_id x \<noteq> id_model g \<longrightarrow> g_name x \<noteq> name_model g) \<longrightarrow>
            fst (update g w) =
              Inr \<lparr>name = name_model g,
                   description = (case description_model g of
                       Undefined \<Rightarrow> g_description r
                     | Null \<Rightarrow> None
                     | Defined d \<Rightarrow> Some d),
                   id_group = id_model g, createdAt = g_created_at r,
                   createdBy = g_created_by r\<rparr> \<and>
            t_groups (committed (snd (update g w))) =
              map (\<lambda>x. if g_id x = id_model g
                        then x\<lparr>g_name := name_model g,
                               g_description := (case description_model g of
                                   Undefined \<Rightarrow> g_description x
                                 | Null \<Rightarrow> None
                                 | Defined d \<Rightarrow> Some d)\<rparr>
                        else x)
                (t_groups (committed w)))"
proof -
  have nf: "\<not> (faults w \<noteq> [] \<and> hd (faults w))"
    using ff by (rule fault_free_hd)
  have a: "fst (update g w) = Inl (NotFoundError ''No group found'')"
    if "\<forall>r \<in> set (t_groups (committed w)). g_id r \<noteq> id_model g"
  proof -
    from that have "filter (\<lambda>r. g_id r = id_model g) (t_groups (committed w)) = []"
      by (simp add: filter_empty_conv)
    with that nf show ?thesis
      by (auto simp: update_def execute_def sql_update_returning_def Let_def at0_def
          rowToGroup_def)
  qed
  have b: "fst (update g w) = Inl ConstraintViolation"
    if "\<exists>r \<in> set (t_groups (committed w)). g_id r = id_model g"
      and "\<exists>x \<in> set (t_groups (committed w)). g_id x \<noteq> id_model g \<and> g_name x = name_model g"
    using that nf
    by (simp add: update_def execute_def sql_update_returning_def Let_def)
  have c: "fst (update g w) =
              Inr \<lparr>name = name_model g,
                   description = (case description_model g of
                       Undefined \<Rightarrow> g_description r
                     | Null \<Rightarrow> None
                     | Defined d \<Rightarrow> Some d),
                   id_group = id_model g, createdAt = g_created_at r,
                   createdBy = g_created_by r\<rparr> \<and>
            t_groups (committed (snd (update g w))) =
              map (\<lambda>x. if g_id x = id_model g
                        then x\<lparr>g_name := name_model g,
                               g_description := (case description_model g of
                                   Undefined \<Rightarrow> g_description x
                                 | Null \<Rightarrow> None
                                 | Defined d \<Rightarrow> Some d)\<rparr>
                        else x)
                (t_groups (committed w))"
    if f: "filter (\<lambda>x. g_id x = id_model g) (t_groups (committed w)) = r # rs"
      and free: "\<forall>x \<in> set (t_groups (committed w)).
               g_id x \<noteq> id_model g \<longrightarrow> g_name x \<noteq> name_model g"
    for r rs
  proof -
    from f have "r \<in> set (filter (\<lambda>x. g_id x = id_model g) (t_groups (committed w)))"
      by simp
    then have rid: "g_id r = id_model g" by simp
    from free
    have nc: "\<not> (\<exists>x \<in> set (t_groups (committed w)). g_id x \<noteq> id_model g \<and> g_name x = name_model g)"
      by blast
    show ?thesis
      using nf nc rid
      by (simp add: update_def execute_def sql_update_returning_def Let_def at0_def
          rowToGroup_def f)
  qed
  from a b c show ?thesis by blast
qed

text \<open>
  Instances: there is no group 9; the name \<open>admins\<close> is held by group 1; group 2
  renamed with a new description, and with the description cleared.
\<close>

theorem update_result_witness:
  "fst (update \<lparr>id_model = 9, name_model = ''crew'', description_model = Null\<rparr>
          (example_world [])) = Inl (NotFoundError ''No group found'') \<and>
   fst (update \<lparr>id_model = 2, name_model = ''admins'', description_model = Undefined\<rparr>
          (example_world [])) = Inl ConstraintViolation \<and>
   fst (update \<lparr>id_model = 2, name_model = ''crew'', description_model = Defined ''the crew''\<rparr>
          (example_world [])) =
     Inr \<lparr>name = ''crew'', description = Some ''the crew'', id_group = 2, createdAt = 1,
          createdBy = Some ''root''\<rparr> \<and>
   fst (update \<lparr>id_model = 2, name_model = ''crew'', description_model = Null\<rparr>
          (example_world [])) =
     Inr \<lparr>name = ''crew'', description = None, id_group = 2, createdAt = 1,
          createdBy = Some ''root''\<rparr>"
proof -
  let ?G = "t_groups (committed (example_world []))"
  let ?r2 = "\<lparr>g_id = 2, g_name = ''staff'', g_description = Some ''all staff'', g_created_at = 1,
          g_created_by = Some ''root''\<rparr>"
  have absent: "\<forall>r \<in> set ?G. g_id r \<noteq> id_model \<lparr>id_model = 9, name_model = ''crew'', description_model = Null\<rparr>"
    by (simp add: example_world_def example_db_def)
  have present: "\<exists>r \<in> set ?G. g_id r = id_model \<lparr>id_model = 2, name_model = ''admins'', description_model = Undefined\<rparr>"
    and taken: "\<exists>x \<in> set ?G. g_id x \<noteq> id_model \<lparr>id_model = 2, name_model = ''admins'', description_model = Undefined\<rparr> \<and>
      g_name x = name_model \<lparr>id_model = 2, name_model = ''admins'', description_model = Undefined\<rparr>"
    by (simp_all add: example_world_def example_db_def)
  have first: "filter (\<lambda>x. g_id x = id_model \<lparr>id_model = 2, name_model = ''crew'', description_model = d\<rparr>) ?G
      = ?r2 # []"
    and free: "\<forall>x \<in> set ?G. g_id x \<noteq> id_model \<lparr>id_model = 2, name_model = ''crew'', description_model = d\<rparr>
      \<longrightarrow> g_name x \<noteq> name_model \<lparr>id_model = 2, name_model = ''crew'', description_model = d\<rparr>"
    for d
    by (simp_all add: example_world_def example_db_def)
  note T = update_result [OF fault_free_example]
  from T [of "\<lparr>id_model = 9, name_model = ''crew'', description_model = Null\<rparr>"] absent
  have a: "fst (update \<lparr>id_model = 9, name_model = ''crew'', description_model = Null\<rparr>
          (example_world [])) = Inl (NotFoundError ''No group found'')"
    by blast
  from T [of "\<lparr>id_model = 2, name_model = ''admins'', description_model = Undefined\<rparr>"]
    present taken
  have b: "fst (update \<lparr>id_model = 2, name_model = ''admins'', description_model = Undefined\<rparr>
          (example_world [])) = Inl ConstraintViolation"
    by blast
  have c: "fst (update \<lparr>id_model = 2, name_model = ''crew'', description_model = d\<rparr>
          (example_world [])) =
     Inr \<lparr>name = ''crew'',
          description = (case d of Undefined \<Rightarrow> Some ''all staff'' | Null \<Rightarrow> None
                         | Defined v \<Rightarrow> Some v),
          id_group = 2, createdAt = 1, createdBy = Some ''root''\<rparr>" for d
    using T [of "\<lparr>id_model = 2, name_model = ''crew'', description_model = d\<rparr>"]
      first [of d] free [of d]
    by (auto split: optional.splits)
  from a b c [of "Defined ''the crew''"] c [of Null] show ?thesis
    by simp
qed

end
